theory Spec2Isabelle
  imports Complex_Main
begin

section \<open>JavaScript numbers\<close>

text \<open>
  Every numeric value of the calculator is a JavaScript \<^verbatim>\<open>number\<close>. The code tests
  them with \<^verbatim>\<open>isNaN\<close> and \<^verbatim>\<open>isFinite\<close>, so the model keeps the three special
  values next to the finite ones. Finite values are real numbers and arithmetic on them
  is exact: rounding, overflow to an infinity and underflow to zero are not modelled,
  and the two zeros are one value. The special values follow IEEE 754: NaN is absorbing,
  \<^verbatim>\<open>Infinity - Infinity\<close>, \<^verbatim>\<open>Infinity * 0\<close>, \<^verbatim>\<open>0 / 0\<close> and
  \<^verbatim>\<open>Infinity / Infinity\<close> are NaN, and every comparison with NaN is false.
\<close>

datatype number = Num real | Infinity | NegInfinity | NaN

fun sign :: "number \<Rightarrow> real" where
  "sign (Num a) = sgn a"
| "sign Infinity = 1"
| "sign NegInfinity = - 1"
| "sign NaN = 0"

definition inf_of_sign :: "real \<Rightarrow> number" where
  "inf_of_sign s = (if s = 0 then NaN else if 0 < s then Infinity else NegInfinity)"

instantiation number :: "{zero, plus, uminus, minus, times, inverse, ord}"
begin

definition zero_number :: number where
  "zero_number = Num 0"

fun plus_number :: "number \<Rightarrow> number \<Rightarrow> number" where
  "plus_number NaN y = NaN"
| "plus_number x NaN = NaN"
| "plus_number (Num a) (Num b) = Num (a + b)"
| "plus_number Infinity NegInfinity = NaN"
| "plus_number NegInfinity Infinity = NaN"
| "plus_number Infinity y = Infinity"
| "plus_number NegInfinity y = NegInfinity"
| "plus_number (Num a) y = y"

fun uminus_number :: "number \<Rightarrow> number" where
  "uminus_number (Num a) = Num (- a)"
| "uminus_number Infinity = NegInfinity"
| "uminus_number NegInfinity = Infinity"
| "uminus_number NaN = NaN"

definition minus_number :: "number \<Rightarrow> number \<Rightarrow> number" where
  "minus_number x y = x + (- y)"

fun times_number :: "number \<Rightarrow> number \<Rightarrow> number" where
  "times_number NaN y = NaN"
| "times_number x NaN = NaN"
| "times_number (Num a) (Num b) = Num (a * b)"
| "times_number x y = inf_of_sign (sign x * sign y)"

fun divide_number :: "number \<Rightarrow> number \<Rightarrow> number" where
  "divide_number NaN y = NaN"
| "divide_number x NaN = NaN"
| "divide_number (Num a) (Num b) = (if b = 0 then inf_of_sign (sgn a) else Num (a / b))"
| "divide_number (Num a) y = Num 0"
| "divide_number x (Num b) = inf_of_sign (sign x * (if b < 0 then - 1 else 1))"
| "divide_number x y = NaN"

definition inverse_number :: "number \<Rightarrow> number" where
  "inverse_number x = divide (Num 1) x"

fun less_number :: "number \<Rightarrow> number \<Rightarrow> bool" where
  "less_number NaN y = False"
| "less_number x NaN = False"
| "less_number (Num a) (Num b) = (a < b)"
| "less_number x NegInfinity = False"
| "less_number Infinity y = False"
| "less_number NegInfinity y = True"
| "less_number (Num a) Infinity = True"

definition less_eq_number :: "number \<Rightarrow> number \<Rightarrow> bool" where
  "less_eq_number x y = (x \<noteq> NaN \<and> y \<noteq> NaN \<and> \<not> y < x)"

instance ..

end

definition isNaN :: "number \<Rightarrow> bool" where
  "isNaN x = (x = NaN)"

definition isFinite :: "number \<Rightarrow> bool" where
  "isFinite x = (case x of Num a \<Rightarrow> True | _ \<Rightarrow> False)"


section \<open>Data model\<close>

datatype TradeOutcome = Win | PartialWin | Loss | Breakeven | Pending

text \<open>
  The interface \<^verbatim>\<open>Trade\<close>. The field \<^verbatim>\<open>id\<close> is named \<open>trade_id\<close> here, and the
  optional \<^verbatim>\<open>nextSuggestedRisk\<close> is \<open>None\<close> when it is \<^verbatim>\<open>undefined\<close>.
\<close>

record Trade =
  trade_id :: string
  tradeNumber :: number
  accountSize :: number
  riskPercentage :: number
  riskAmount :: number
  outcome :: TradeOutcome
  winMultiplier :: number
  floatingPL :: number
  accountBalance :: number
  distanceToTarget :: number
  nextSuggestedRisk :: "number option"

text \<open>
  The four memoised values that the callbacks of the component close over:
  \<^verbatim>\<open>initialBalance\<close>, \<^verbatim>\<open>profitTarget\<close>, \<^verbatim>\<open>defaultRiskPercentage\<close> and
  \<^verbatim>\<open>defaultWinMultiplier\<close>.
\<close>

record Config =
  initialBalance :: number
  profitTarget :: number
  defaultRiskPercentage :: number
  defaultWinMultiplier :: number

section \<open>The ledger recalculation\<close>

text \<open>
  \<^verbatim>\<open>calculateTradeRow(trade, previousBalance, target)\<close>. The object spread keeps every
  field of \<open>trade\<close> that is not overwritten, \<open>nextSuggestedRisk\<close> included. The
  \<^verbatim>\<open>switch\<close> has three cases and a default, which takes breakeven and pending.
\<close>

definition calculateTradeRow :: "Trade \<Rightarrow> number \<Rightarrow> number \<Rightarrow> Trade" where
  "calculateTradeRow trade previousBalance target =
     (let accountSize' = previousBalance;
          riskPercentage' = riskPercentage trade;
          winMultiplier' = winMultiplier trade;
          outcome' = outcome trade;
          riskAmount' = (accountSize' * (riskPercentage' / Num 100) :: number);
          floatingPL' = (case outcome' of
                           Win \<Rightarrow> riskAmount' * winMultiplier'
                         | Loss \<Rightarrow> - riskAmount'
                         | PartialWin \<Rightarrow> (riskAmount' * winMultiplier') / Num 2
                         | _ \<Rightarrow> (0 :: number));
          accountBalance' = (accountSize' + floatingPL' :: number);
          distanceToTarget' = (target - accountBalance' :: number)
      in trade
           \<lparr> accountSize := accountSize',
             riskAmount := (if isNaN riskAmount' then 0 else riskAmount'),
             floatingPL := (if isNaN floatingPL' then 0 else floatingPL'),
             accountBalance := (if isNaN accountBalance' then accountSize' else accountBalance'),
             distanceToTarget :=
               (if isNaN distanceToTarget' then target - accountSize' else distanceToTarget') \<rparr>)"

text \<open>\<^verbatim>\<open>calculateNextRisk(currentBal, target, multiplier)\<close>; \<open>None\<close> is \<^verbatim>\<open>undefined\<close>.\<close>

definition calculateNextRisk :: "number \<Rightarrow> number \<Rightarrow> number \<Rightarrow> number option" where
  "calculateNextRisk currentBal target multiplier =
     (let remainingNeeded = (target - currentBal :: number)
      in if remainingNeeded \<le> 0 \<or> currentBal \<le> 0 \<or> multiplier \<le> 0 then None
         else let risk = ((remainingNeeded / (currentBal * multiplier)) * Num 100 :: number)
              in if isNaN risk \<or> \<not> isFinite risk then None else Some risk)"

text \<open>
  \<^verbatim>\<open>recalculateTrades(currentTrades)\<close> maps over the list with a callback that reads
  and assigns the variable \<^verbatim>\<open>cumulativeBalance\<close>. The loop below passes that variable
  and the index of the callback along.
\<close>

fun recalculateLoop :: "Config \<Rightarrow> number \<Rightarrow> nat \<Rightarrow> Trade list \<Rightarrow> Trade list" where
  "recalculateLoop cfg cumulativeBalance index [] = []"
| "recalculateLoop cfg cumulativeBalance index (trade # rest) =
     (let calculatedCoreTrade = calculateTradeRow trade cumulativeBalance (profitTarget cfg);
          cumulativeBalance' = accountBalance calculatedCoreTrade;
          nextRisk = calculateNextRisk cumulativeBalance' (profitTarget cfg) (defaultWinMultiplier cfg)
      in calculatedCoreTrade
           \<lparr> tradeNumber := Num (real (index + 1)), nextSuggestedRisk := nextRisk \<rparr>
         # recalculateLoop cfg cumulativeBalance' (index + 1) rest)"

definition recalculateTrades :: "Config \<Rightarrow> Trade list \<Rightarrow> Trade list" where
  "recalculateTrades cfg currentTrades = recalculateLoop cfg (initialBalance cfg) 0 currentTrades"

section \<open>The handlers of the component\<close>

text \<open>
  A handler is modelled as a function from the trade list it sees to the list it stores
  with \<^verbatim>\<open>setTrades\<close> and the toasts it raises. After every change of the list an effect
  of the component runs \<open>recalculateTrades\<close> on it.
\<close>

datatype Toast = ToastSuccess string | ToastWarning string | ToastError string | ToastInfo string

text \<open>The decimal digits of an array length, as a template literal prints them.\<close>

fun decimal :: "nat \<Rightarrow> string" where
  "decimal n =
     (if n < 10 then [char_of (48 + n)]
      else decimal (n div 10) @ [char_of (48 + n mod 10)])"

text \<open>
  \<^verbatim>\<open>handleAddTrade\<close>. The identifier comes from \<^verbatim>\<open>uuidv4()\<close> and is a parameter here.
  The new object has the four fields \<^verbatim>\<open>id\<close>, \<^verbatim>\<open>riskPercentage\<close>, \<^verbatim>\<open>outcome\<close> and
  \<^verbatim>\<open>winMultiplier\<close> only and is cast to \<^verbatim>\<open>Trade\<close>; its other numeric fields read as
  \<^verbatim>\<open>undefined\<close>, which every arithmetic operation and comparison of this component
  treats as NaN, so they are NaN here. The list \<^verbatim>\<open>trades\<close> the callback closes over and
  the list \<^verbatim>\<open>prevTrades\<close> its updater receives are the same list.
\<close>

definition handleAddTrade :: "Config \<Rightarrow> string \<Rightarrow> Trade list \<Rightarrow> Trade list \<times> Toast list" where
  "handleAddTrade cfg uuid trades =
     (let lastBalance = (if length trades > 0 then accountBalance (trades ! (length trades - 1))
                         else initialBalance cfg);
          currentRisk = calculateNextRisk lastBalance (profitTarget cfg) (defaultWinMultiplier cfg);
          riskToUse = (case currentRisk of
                         None \<Rightarrow> defaultRiskPercentage cfg
                       | Some r \<Rightarrow> if 0 < r \<and> r < Num 50 then r else defaultRiskPercentage cfg);
          newTradeInput =
            \<lparr> trade_id = uuid, tradeNumber = NaN, accountSize = NaN,
              riskPercentage = riskToUse, riskAmount = NaN,
              outcome = Pending, winMultiplier = defaultWinMultiplier cfg,
              floatingPL = NaN, accountBalance = NaN, distanceToTarget = NaN,
              nextSuggestedRisk = None \<rparr>
      in (trades @ [newTradeInput],
          [ToastSuccess (''Trade #'' @ decimal (length trades + 1) @ '' added.'')]))"

definition handleDeleteTrade :: "string \<Rightarrow> Trade list \<Rightarrow> Trade list \<times> Toast list" where
  "handleDeleteTrade i prevTrades =
     (filter (\<lambda>trade. trade_id trade \<noteq> i) prevTrades,
      [ToastWarning ''Trade deleted and log recalculated.''])"

definition handleUpdateTradeOutcome ::
  "string \<Rightarrow> TradeOutcome \<Rightarrow> Trade list \<Rightarrow> Trade list \<times> Toast list" where
  "handleUpdateTradeOutcome i newOutcome prevTrades =
     (let outcomeChanged = (\<exists>trade \<in> set prevTrades. trade_id trade = i \<and> outcome trade \<noteq> newOutcome)
      in (map (\<lambda>trade. if trade_id trade = i \<and> outcome trade \<noteq> newOutcome
                        then trade\<lparr>outcome := newOutcome\<rparr> else trade) prevTrades,
          if outcomeChanged then [ToastInfo ''Trade outcome updated and log recalculated.''] else []))"






section \<open>A worked ledger\<close>

text \<open>
  The configuration and the trade used in the concrete instances below: balance 10000,
  target 10800, default risk 1.23 per cent, default multiplier 6.5, and one winning trade
  at 1 per cent risk and multiplier 6.5, as \<open>handleAddTrade\<close> would have stored it before
  the first recalculation.
\<close>

definition scenarioConfig :: Config where
  "scenarioConfig = \<lparr> initialBalance = Num 10000, profitTarget = Num 10800,
       defaultRiskPercentage = Num 1.23, defaultWinMultiplier = Num 6.5 \<rparr>"

definition scenarioTrade :: Trade where
  "scenarioTrade = \<lparr> trade_id = ''t1'', tradeNumber = NaN, accountSize = NaN,
       riskPercentage = Num 1, riskAmount = NaN, outcome = Win, winMultiplier = Num 6.5,
       floatingPL = NaN, accountBalance = NaN, distanceToTarget = NaN,
       nextSuggestedRisk = None \<rparr>"

section \<open>Facts about the recalculation loop\<close>

lemmas number_defs = zero_number_def minus_number_def less_eq_number_def isNaN_def isFinite_def
  inf_of_sign_def

lemmas eval_defs = recalculateTrades_def calculateTradeRow_def calculateNextRisk_def Let_def
  number_defs

lemma calculateTradeRow_user [simp]:
  "trade_id (calculateTradeRow t b tg) = trade_id t"
  "riskPercentage (calculateTradeRow t b tg) = riskPercentage t"
  "winMultiplier (calculateTradeRow t b tg) = winMultiplier t"
  "outcome (calculateTradeRow t b tg) = outcome t"
  "accountSize (calculateTradeRow t b tg) = b"
  by (simp_all add: calculateTradeRow_def Let_def)

lemma calculateTradeRow_again:
  "calculateTradeRow (calculateTradeRow t b tg \<lparr>tradeNumber := n, nextSuggestedRisk := r\<rparr>) b tg
     = calculateTradeRow t b tg \<lparr>tradeNumber := n, nextSuggestedRisk := r\<rparr>"
  by (simp add: calculateTradeRow_def Let_def)

lemma length_recalculateLoop [simp]: "length (recalculateLoop cfg b k ts) = length ts"
  by (induction ts arbitrary: b k) (simp_all add: Let_def)

lemma recalculateLoop_again:
  "recalculateLoop cfg b k (recalculateLoop cfg b k ts) = recalculateLoop cfg b k ts"
  by (induction ts arbitrary: b k) (simp_all add: Let_def calculateTradeRow_again)

text \<open>
  Row \<open>i\<close> of the output is \<open>calculateTradeRow\<close> of input \<open>i\<close> at the balance the row
  itself records as its starting balance, numbered and annotated by the callback.
\<close>

lemma recalculateLoop_nth:
  "i < length ts \<Longrightarrow>
   recalculateLoop cfg b k ts ! i =
     calculateTradeRow (ts ! i) (accountSize (recalculateLoop cfg b k ts ! i)) (profitTarget cfg)
       \<lparr> tradeNumber := Num (real (k + i + 1)),
         nextSuggestedRisk :=
           calculateNextRisk (accountBalance (recalculateLoop cfg b k ts ! i))
             (profitTarget cfg) (defaultWinMultiplier cfg) \<rparr>"
proof (induction ts arbitrary: b k i)
  case Nil
  then show ?case by simp
next
  case (Cons t ts)
  show ?case
  proof (cases i)
    case 0
    then show ?thesis by (simp add: Let_def)
  next
    case (Suc j)
    with Cons.prems have j: "j < length ts" by simp
    define b' where "b' = accountBalance (calculateTradeRow t b (profitTarget cfg))"
    have eq: "recalculateLoop cfg b k (t # ts) ! i = recalculateLoop cfg b' (Suc k) ts ! j"
      by (simp add: Suc Let_def b'_def)
    have nth: "(t # ts) ! i = ts ! j" by (simp add: Suc)
    have idx: "k + i + 1 = Suc k + j + 1" by (simp add: Suc)
    show ?thesis unfolding eq nth idx by (rule Cons.IH [OF j])
  qed
qed

lemma recalculateLoop_first:
  "ts \<noteq> [] \<Longrightarrow> accountSize (recalculateLoop cfg b k ts ! 0) = b"
  by (cases ts) (simp_all add: Let_def)

lemma recalculateLoop_chain:
  "Suc i < length ts \<Longrightarrow>
   accountSize (recalculateLoop cfg b k ts ! Suc i) = accountBalance (recalculateLoop cfg b k ts ! i)"
proof (induction ts arbitrary: b k i)
  case Nil
  then show ?case by simp
next
  case (Cons t ts)
  show ?case
  proof (cases i)
    case 0
    with Cons.prems show ?thesis by (simp add: Let_def recalculateLoop_first)
  next
    case (Suc j)
    with Cons.prems have "Suc j < length ts" by simp
    from Cons.IH [OF this] Suc show ?thesis by (simp add: Let_def)
  qed
qed

lemma recalculateTrades_tradeNumber:
  "i < length ts \<Longrightarrow> tradeNumber (recalculateTrades cfg ts ! i) = Num (real (i + 1))"
  unfolding recalculateTrades_def by (subst recalculateLoop_nth) simp_all

lemma recalculateTrades_nextSuggestedRisk:
  "i < length ts \<Longrightarrow>
   nextSuggestedRisk (recalculateTrades cfg ts ! i) =
     calculateNextRisk (accountBalance (recalculateTrades cfg ts ! i))
       (profitTarget cfg) (defaultWinMultiplier cfg)"
  unfolding recalculateTrades_def by (subst recalculateLoop_nth) simp_all

lemma recalculateTrades_user:
  assumes "i < length ts"
  shows "trade_id (recalculateTrades cfg ts ! i) = trade_id (ts ! i)"
    and "riskPercentage (recalculateTrades cfg ts ! i) = riskPercentage (ts ! i)"
    and "winMultiplier (recalculateTrades cfg ts ! i) = winMultiplier (ts ! i)"
    and "outcome (recalculateTrades cfg ts ! i) = outcome (ts ! i)"
  unfolding recalculateTrades_def by (subst recalculateLoop_nth, simp add: assms, simp)+

text \<open>The scenario of the worked ledger, evaluated.\<close>

lemma scenario_row:
  "recalculateTrades scenarioConfig [scenarioTrade] =
     [scenarioTrade \<lparr> tradeNumber := Num 1, accountSize := Num 10000, riskAmount := Num 100,
        floatingPL := Num 650, accountBalance := Num 10650, distanceToTarget := Num 150,
        nextSuggestedRisk := Some (Num (200 / 923)) \<rparr>]"
  by (simp add: scenarioConfig_def scenarioTrade_def eval_defs)

text \<open>
  The four computed fields of row \<open>i\<close> are those of \<open>calculateTradeRow\<close> at the row's own
  starting balance.
\<close>

lemma recalculateTrades_core:
  assumes "i < length ts"
  shows "riskAmount (recalculateTrades cfg ts ! i) =
           riskAmount (calculateTradeRow (ts ! i) (accountSize (recalculateTrades cfg ts ! i)) (profitTarget cfg))"
    and "floatingPL (recalculateTrades cfg ts ! i) =
           floatingPL (calculateTradeRow (ts ! i) (accountSize (recalculateTrades cfg ts ! i)) (profitTarget cfg))"
    and "accountBalance (recalculateTrades cfg ts ! i) =
           accountBalance (calculateTradeRow (ts ! i) (accountSize (recalculateTrades cfg ts ! i)) (profitTarget cfg))"
    and "distanceToTarget (recalculateTrades cfg ts ! i) =
           distanceToTarget (calculateTradeRow (ts ! i) (accountSize (recalculateTrades cfg ts ! i)) (profitTarget cfg))"
proof -
  define row where "row = recalculateTrades cfg ts ! i"
  define c where "c = calculateTradeRow (ts ! i) (accountSize row) (profitTarget cfg)"
  have "row = c \<lparr> tradeNumber := Num (real (0 + i + 1)),
                   nextSuggestedRisk := calculateNextRisk (accountBalance row) (profitTarget cfg)
                      (defaultWinMultiplier cfg) \<rparr>"
    unfolding row_def c_def recalculateTrades_def by (rule recalculateLoop_nth [OF assms])
  then obtain n r where rc: "row = c \<lparr> tradeNumber := n, nextSuggestedRisk := r \<rparr>" by blast
  have "riskAmount row = riskAmount c" "floatingPL row = floatingPL c"
    "accountBalance row = accountBalance c" "distanceToTarget row = distanceToTarget c"
    by (simp_all add: rc)
  then show "riskAmount (recalculateTrades cfg ts ! i) =
           riskAmount (calculateTradeRow (ts ! i) (accountSize (recalculateTrades cfg ts ! i)) (profitTarget cfg))"
    and "floatingPL (recalculateTrades cfg ts ! i) =
           floatingPL (calculateTradeRow (ts ! i) (accountSize (recalculateTrades cfg ts ! i)) (profitTarget cfg))"
    and "accountBalance (recalculateTrades cfg ts ! i) =
           accountBalance (calculateTradeRow (ts ! i) (accountSize (recalculateTrades cfg ts ! i)) (profitTarget cfg))"
    and "distanceToTarget (recalculateTrades cfg ts ! i) =
           distanceToTarget (calculateTradeRow (ts ! i) (accountSize (recalculateTrades cfg ts ! i)) (profitTarget cfg))"
    by (simp_all add: row_def c_def)
qed

section \<open>Signs under the arithmetic\<close>








section \<open>Auxiliary facts about the handlers\<close>

lemma filter_distinct_nth:
  "distinct (map f xs) \<Longrightarrow> k < length xs \<Longrightarrow>
   filter (\<lambda>x. f x \<noteq> f (xs ! k)) xs = take k xs @ drop (Suc k) xs"
proof (induction xs arbitrary: k)
  case Nil
  then show ?case by simp
next
  case (Cons x xs)
  show ?case
  proof (cases k)
    case 0
    from Cons.prems have "f x \<notin> f ` set xs" by simp
    then have "\<forall>y \<in> set xs. f y \<noteq> f x" by (metis imageI)
    then have "filter (\<lambda>y. f y \<noteq> f x) xs = xs" by (simp add: filter_id_conv)
    with 0 show ?thesis by simp
  next
    case (Suc j)
    with Cons.prems have j: "j < length xs" and d: "distinct (map f xs)" by simp_all
    from Cons.prems have "f x \<notin> f ` set xs" by simp
    with j have "f x \<noteq> f (xs ! j)" by (metis imageI nth_mem)
    with Cons.IH [OF d j] Suc show ?thesis by simp
  qed
qed

lemma handleAddTrade_fst:
  "fst (handleAddTrade cfg uuid trades) =
     trades @
     [\<lparr> trade_id = uuid, tradeNumber = NaN, accountSize = NaN,
        riskPercentage =
          (case calculateNextRisk
                  (if trades = [] then initialBalance cfg else accountBalance (last trades))
                  (profitTarget cfg) (defaultWinMultiplier cfg) of
             None \<Rightarrow> defaultRiskPercentage cfg
           | Some r \<Rightarrow> if 0 < r \<and> r < Num 50 then r else defaultRiskPercentage cfg),
        riskAmount = NaN, outcome = Pending, winMultiplier = defaultWinMultiplier cfg,
        floatingPL = NaN, accountBalance = NaN, distanceToTarget = NaN,
        nextSuggestedRisk = None \<rparr>]"
  by (cases "trades = []") (simp_all add: handleAddTrade_def Let_def last_conv_nth)


lemma calculateNextRisk_target_met:
  "target \<le> currentBal \<Longrightarrow> calculateNextRisk currentBal target multiplier = None"
  apply (cases currentBal; cases target; cases multiplier)
  apply (simp_all add: calculateNextRisk_def Let_def number_defs)
  done

section \<open>The derived fields of a row\<close>

text \<open>
  Claim C1, as the code has it. Row \<open>i\<close> of the recalculated list is derived from the
  running balance, which the row records as its starting balance \<open>accountSize\<close>:
  the risk amount is balance times (risk percentage / 100); the floating P/L is
  risk amount times win multiplier for a win, half of that for a partial win, minus the
  risk amount for a loss and 0 for breakeven and pending; the ending balance is balance
  plus floating P/L; the distance to target is profit target minus ending balance. Each of
  the four is stored as computed unless it is NaN: a NaN risk amount or floating P/L is
  stored as 0, a NaN ending balance as the starting balance, a NaN distance as profit
  target minus starting balance. The floating P/L is computed from the risk amount before
  that replacement, and so on down the chain.
\<close>

theorem recalculateTrades_fields:
  "i < length ts \<Longrightarrow>
   (let row = recalculateTrades cfg ts ! i;
        trade = ts ! i;
        balance = accountSize row;
        risk = balance * (riskPercentage trade / Num 100);
        pl = (case outcome trade of
                Win \<Rightarrow> risk * winMultiplier trade
              | PartialWin \<Rightarrow> (risk * winMultiplier trade) / Num 2
              | Loss \<Rightarrow> - risk
              | Breakeven \<Rightarrow> 0
              | Pending \<Rightarrow> 0);
        ending = balance + pl;
        dist = profitTarget cfg - ending
    in riskAmount row = (if risk = NaN then 0 else risk) \<and>
       floatingPL row = (if pl = NaN then 0 else pl) \<and>
       accountBalance row = (if ending = NaN then balance else ending) \<and>
       distanceToTarget row = (if dist = NaN then profitTarget cfg - balance else dist))"
proof -
  assume i: "i < length ts"
  show ?thesis
    unfolding Let_def recalculateTrades_core [OF i]
    by (cases "outcome (ts ! i)") (simp_all add: calculateTradeRow_def Let_def isNaN_def)
qed

text \<open>The scenario of the specification: 100 at risk, 650 won, 10650 after, 150 to go.\<close>

theorem recalculateTrades_fields_witness:
  "0 < length [scenarioTrade] \<and>
   riskAmount (recalculateTrades scenarioConfig [scenarioTrade] ! 0) = Num 100 \<and>
   floatingPL (recalculateTrades scenarioConfig [scenarioTrade] ! 0) = Num 650 \<and>
   accountBalance (recalculateTrades scenarioConfig [scenarioTrade] ! 0) = Num 10650 \<and>
   distanceToTarget (recalculateTrades scenarioConfig [scenarioTrade] ! 0) = Num 150"
  using recalculateTrades_fields [of 0 "[scenarioTrade]" scenarioConfig]
  by (simp add: scenario_row)

text \<open>
  Without the replacement of NaN the claim fails. With an infinite starting balance
  and a trade at 0 per cent risk the product \<^verbatim>\<open>Infinity * 0\<close> is NaN, and the row stores
  the risk amount 0.
\<close>

theorem riskAmount_formula_counterexample:
  "accountSize (recalculateTrades (scenarioConfig \<lparr>initialBalance := Infinity\<rparr>)
      [scenarioTrade \<lparr>riskPercentage := Num 0\<rparr>] ! 0) = Infinity \<and>
   riskAmount (recalculateTrades (scenarioConfig \<lparr>initialBalance := Infinity\<rparr>)
      [scenarioTrade \<lparr>riskPercentage := Num 0\<rparr>] ! 0) = Num 0 \<and>
   Infinity * (Num 0 / Num 100) = NaN \<and>
   riskAmount (recalculateTrades (scenarioConfig \<lparr>initialBalance := Infinity\<rparr>)
      [scenarioTrade \<lparr>riskPercentage := Num 0\<rparr>] ! 0)
     \<noteq> accountSize (recalculateTrades (scenarioConfig \<lparr>initialBalance := Infinity\<rparr>)
          [scenarioTrade \<lparr>riskPercentage := Num 0\<rparr>] ! 0)
        * (riskPercentage (scenarioTrade \<lparr>riskPercentage := Num 0\<rparr>) / Num 100)"
  by (simp add: scenarioConfig_def scenarioTrade_def eval_defs)

section \<open>The chain of balances\<close>

text \<open>
  Claim C2. In the recalculated list the starting balance of the first trade is the
  initial balance of the configuration, and the starting balance of every later trade is
  the ending balance of the trade before it.
\<close>

theorem recalculateTrades_balance_chain:
  "(ts \<noteq> [] \<longrightarrow> accountSize (recalculateTrades cfg ts ! 0) = initialBalance cfg) \<and>
   (Suc i < length ts \<longrightarrow>
      accountSize (recalculateTrades cfg ts ! Suc i) = accountBalance (recalculateTrades cfg ts ! i))"
  by (simp add: recalculateTrades_def recalculateLoop_first recalculateLoop_chain)

theorem recalculateTrades_balance_chain_witness:
  "[scenarioTrade, scenarioTrade \<lparr>outcome := Loss\<rparr>] \<noteq> [] \<and>
   Suc 0 < length [scenarioTrade, scenarioTrade \<lparr>outcome := Loss\<rparr>] \<and>
   accountSize (recalculateTrades scenarioConfig
      [scenarioTrade, scenarioTrade \<lparr>outcome := Loss\<rparr>] ! 0) = Num 10000 \<and>
   accountSize (recalculateTrades scenarioConfig
      [scenarioTrade, scenarioTrade \<lparr>outcome := Loss\<rparr>] ! Suc 0) = Num 10650"
  using recalculateTrades_balance_chain
    [of "[scenarioTrade, scenarioTrade \<lparr>outcome := Loss\<rparr>]" scenarioConfig 0]
  by (simp add: scenarioConfig_def scenarioTrade_def eval_defs)

section \<open>The suggested risk\<close>

text \<open>
  Claim C3. The suggested risk is undefined when profit target minus ending balance is
  at most 0, or the ending balance is at most 0, or the win multiplier is at most 0;
  otherwise it is ((profit target - ending balance) / (ending balance * win multiplier))
  * 100 when that value is finite and undefined when it is not. In particular it is
  undefined whenever the ending balance is at least the profit target, and so is the
  suggested next risk of a recalculated row whose ending balance has reached the target.
\<close>

theorem calculateNextRisk_spec:
  "calculateNextRisk endingBalance target multiplier =
     (if target - endingBalance \<le> 0 \<or> endingBalance \<le> 0 \<or> multiplier \<le> 0 then None
      else if isFinite (((target - endingBalance) / (endingBalance * multiplier)) * Num 100)
           then Some (((target - endingBalance) / (endingBalance * multiplier)) * Num 100)
           else None) \<and>
   (target \<le> endingBalance \<longrightarrow> calculateNextRisk endingBalance target multiplier = None) \<and>
   (i < length ts \<and> profitTarget cfg \<le> accountBalance (recalculateTrades cfg ts ! i) \<longrightarrow>
      nextSuggestedRisk (recalculateTrades cfg ts ! i) = None)"
proof -
  have "isNaN x \<or> \<not> isFinite x \<longleftrightarrow> \<not> isFinite x" for x
    by (cases x) (simp_all add: isNaN_def isFinite_def)
  then have "calculateNextRisk endingBalance target multiplier =
     (if target - endingBalance \<le> 0 \<or> endingBalance \<le> 0 \<or> multiplier \<le> 0 then None
      else if isFinite (((target - endingBalance) / (endingBalance * multiplier)) * Num 100)
           then Some (((target - endingBalance) / (endingBalance * multiplier)) * Num 100)
           else None)"
    by (simp add: calculateNextRisk_def Let_def)
  moreover have "target \<le> endingBalance \<longrightarrow> calculateNextRisk endingBalance target multiplier = None"
    by (simp add: calculateNextRisk_target_met)
  moreover have "i < length ts \<and> profitTarget cfg \<le> accountBalance (recalculateTrades cfg ts ! i) \<longrightarrow>
      nextSuggestedRisk (recalculateTrades cfg ts ! i) = None"
    by (simp add: recalculateTrades_nextSuggestedRisk calculateNextRisk_target_met)
  ultimately show ?thesis by blast
qed

text \<open>
  After the scenario's win the suggestion is 200/923 per cent; above the target, and at
  an infinite target, there is none; a win at 2 per cent risk ends at 11300, past the
  target, and the row carries no suggestion.
\<close>

theorem calculateNextRisk_spec_witness:
  "calculateNextRisk (Num 10650) (Num 10800) (Num 6.5) = Some (Num (200 / 923)) \<and>
   Num 10800 \<le> Num 10900 \<and> calculateNextRisk (Num 10900) (Num 10800) (Num 6.5) = None \<and>
   calculateNextRisk (Num 1) Infinity (Num 1) = None \<and>
   0 < length [scenarioTrade \<lparr>riskPercentage := Num 2\<rparr>] \<and>
   accountBalance (recalculateTrades scenarioConfig [scenarioTrade \<lparr>riskPercentage := Num 2\<rparr>] ! 0)
     = Num 11300 \<and>
   profitTarget scenarioConfig
     \<le> accountBalance (recalculateTrades scenarioConfig [scenarioTrade \<lparr>riskPercentage := Num 2\<rparr>] ! 0) \<and>
   nextSuggestedRisk (recalculateTrades scenarioConfig [scenarioTrade \<lparr>riskPercentage := Num 2\<rparr>] ! 0)
     = None"
  using calculateNextRisk_spec [of "Num 10900" "Num 10800" "Num 6.5" 0
      "[scenarioTrade \<lparr>riskPercentage := Num 2\<rparr>]" scenarioConfig]
  by (simp add: scenarioConfig_def scenarioTrade_def eval_defs)

section \<open>Idempotence\<close>

text \<open>
  Claim C4. Recalculating a list that is already the output of the recalculation for
  the same configuration yields the identical list.
\<close>

theorem recalculateTrades_idempotent:
  "recalculateTrades cfg (recalculateTrades cfg ts) = recalculateTrades cfg ts"
  by (simp add: recalculateTrades_def recalculateLoop_again)

theorem recalculateTrades_idempotent_witness:
  "recalculateTrades scenarioConfig (recalculateTrades scenarioConfig [scenarioTrade])
     = recalculateTrades scenarioConfig [scenarioTrade] \<and>
   recalculateTrades scenarioConfig [scenarioTrade] \<noteq> [scenarioTrade]"
  using recalculateTrades_idempotent [of scenarioConfig "[scenarioTrade]"]
  by (simp add: scenario_row) (simp add: scenarioTrade_def)

section \<open>Deleting a trade\<close>

text \<open>
  Claim C5. Identities are unique in a trade list (they are fresh UUIDs). Deleting the
  trade at position \<open>k\<close> and recalculating yields exactly the remaining trades in their
  original order: their identity, risk percentage, win multiplier and outcome are those
  of the list without position \<open>k\<close>, their trade numbers are 1, 2, 3, ... and their
  balances are recomputed from the initial balance of the configuration.
\<close>

theorem delete_then_recalculate:
  assumes "distinct (map trade_id ts)" and "k < length ts"
  shows "(let remaining = take k ts @ drop (Suc k) ts;
              out = recalculateTrades cfg (fst (handleDeleteTrade (trade_id (ts ! k)) ts))
          in fst (handleDeleteTrade (trade_id (ts ! k)) ts) = remaining \<and>
             length out = length ts - 1 \<and>
             (\<forall>j < length out.
                trade_id (out ! j) = trade_id (remaining ! j) \<and>
                riskPercentage (out ! j) = riskPercentage (remaining ! j) \<and>
                winMultiplier (out ! j) = winMultiplier (remaining ! j) \<and>
                outcome (out ! j) = outcome (remaining ! j) \<and>
                tradeNumber (out ! j) = Num (real (j + 1)) \<and>
                accountSize (out ! j) =
                  (if j = 0 then initialBalance cfg else accountBalance (out ! (j - 1)))))"
proof -
  define remaining where "remaining = take k ts @ drop (Suc k) ts"
  have del: "fst (handleDeleteTrade (trade_id (ts ! k)) ts) = remaining"
    unfolding handleDeleteTrade_def remaining_def using filter_distinct_nth [OF assms] by simp
  have len: "length remaining = length ts - 1"
    using assms(2) by (simp add: remaining_def)
  have row: "trade_id (recalculateTrades cfg remaining ! j) = trade_id (remaining ! j) \<and>
        riskPercentage (recalculateTrades cfg remaining ! j) = riskPercentage (remaining ! j) \<and>
        winMultiplier (recalculateTrades cfg remaining ! j) = winMultiplier (remaining ! j) \<and>
        outcome (recalculateTrades cfg remaining ! j) = outcome (remaining ! j) \<and>
        tradeNumber (recalculateTrades cfg remaining ! j) = Num (real (j + 1)) \<and>
        accountSize (recalculateTrades cfg remaining ! j) =
          (if j = 0 then initialBalance cfg
           else accountBalance (recalculateTrades cfg remaining ! (j - 1)))"
    if "j < length remaining" for j
  proof (cases j)
    case 0
    with that have "remaining \<noteq> []" by auto
    then have "accountSize (recalculateTrades cfg remaining ! 0) = initialBalance cfg"
      by (simp add: recalculateTrades_def recalculateLoop_first)
    with that 0 show ?thesis
      by (simp add: recalculateTrades_user recalculateTrades_tradeNumber)
  next
    case (Suc m)
    with that have "accountSize (recalculateTrades cfg remaining ! Suc m)
        = accountBalance (recalculateTrades cfg remaining ! m)"
      by (simp add: recalculateTrades_def recalculateLoop_chain)
    with that Suc show ?thesis
      by (simp add: recalculateTrades_user recalculateTrades_tradeNumber)
  qed
  have lo: "length (recalculateTrades cfg remaining) = length remaining"
    by (simp add: recalculateTrades_def)
  show ?thesis
    unfolding Let_def del remaining_def [symmetric]
    using row by (simp add: lo len)
qed

theorem delete_then_recalculate_witness:
  "distinct (map trade_id [scenarioTrade, scenarioTrade \<lparr>trade_id := ''t2'', outcome := Loss\<rparr>]) \<and>
   0 < length [scenarioTrade, scenarioTrade \<lparr>trade_id := ''t2'', outcome := Loss\<rparr>] \<and>
   fst (handleDeleteTrade ''t1'' [scenarioTrade, scenarioTrade \<lparr>trade_id := ''t2'', outcome := Loss\<rparr>])
     = [scenarioTrade \<lparr>trade_id := ''t2'', outcome := Loss\<rparr>] \<and>
   recalculateTrades scenarioConfig
       (fst (handleDeleteTrade ''t1'' [scenarioTrade, scenarioTrade \<lparr>trade_id := ''t2'', outcome := Loss\<rparr>]))
     = [scenarioTrade \<lparr> trade_id := ''t2'', outcome := Loss, tradeNumber := Num 1,
          accountSize := Num 10000, riskAmount := Num 100, floatingPL := Num (- 100),
          accountBalance := Num 9900, distanceToTarget := Num 900,
          nextSuggestedRisk := Some (Num (200 / 143)) \<rparr>]"
  using delete_then_recalculate
    [of "[scenarioTrade, scenarioTrade \<lparr>trade_id := ''t2'', outcome := Loss\<rparr>]" 0 scenarioConfig]
  by (simp add: handleDeleteTrade_def scenarioConfig_def scenarioTrade_def eval_defs)

section \<open>Appending a trade\<close>

text \<open>
  Claim C6. \<open>handleAddTrade\<close> appends one trade. Its outcome is pending, its win
  multiplier is the default win multiplier of the configuration, and its risk percentage
  is the suggested risk computed from the ending balance of the last trade (from the
  initial balance when the list is empty) when that suggestion is defined, strictly
  positive and strictly below 50, and the default risk percentage otherwise.
\<close>

theorem handleAddTrade_new_trade:
  "(let lastBalance = (if trades = [] then initialBalance cfg else accountBalance (last trades));
        suggestion = calculateNextRisk lastBalance (profitTarget cfg) (defaultWinMultiplier cfg);
        new = last (fst (handleAddTrade cfg uuid trades))
    in fst (handleAddTrade cfg uuid trades) = trades @ [new] \<and>
       outcome new = Pending \<and>
       winMultiplier new = defaultWinMultiplier cfg \<and>
       (\<forall>r. suggestion = Some r \<and> 0 < r \<and> r < Num 50 \<longrightarrow> riskPercentage new = r) \<and>
       (\<not> (\<exists>r. suggestion = Some r \<and> 0 < r \<and> r < Num 50)
          \<longrightarrow> riskPercentage new = defaultRiskPercentage cfg))"
  unfolding Let_def handleAddTrade_fst
  by (auto split: option.splits)

theorem handleAddTrade_new_trade_witness:
  "calculateNextRisk (accountBalance (last (recalculateTrades scenarioConfig [scenarioTrade])))
       (profitTarget scenarioConfig) (defaultWinMultiplier scenarioConfig) = Some (Num (200 / 923)) \<and>
   0 < Num (200 / 923) \<and> Num (200 / 923) < Num 50 \<and>
   riskPercentage (last (fst (handleAddTrade scenarioConfig ''t2''
       (recalculateTrades scenarioConfig [scenarioTrade])))) = Num (200 / 923) \<and>
   outcome (last (fst (handleAddTrade scenarioConfig ''t2''
       (recalculateTrades scenarioConfig [scenarioTrade])))) = Pending \<and>
   winMultiplier (last (fst (handleAddTrade scenarioConfig ''t2''
       (recalculateTrades scenarioConfig [scenarioTrade])))) = Num 6.5"
  using handleAddTrade_new_trade
    [of "recalculateTrades scenarioConfig [scenarioTrade]" scenarioConfig "''t2''"]
  by (simp add: scenario_row handleAddTrade_fst)
     (simp add: scenarioConfig_def scenarioTrade_def calculateNextRisk_def Let_def number_defs)

section \<open>The sign of the floating P/L\<close>




section \<open>Editing a value\<close>



section \<open>The multiplier of the suggestion\<close>

text \<open>
  Claim C9. The suggested next risk of every row of the recalculated list is computed
  from the row's ending balance with the default win multiplier of the configuration,
  and so is the suggestion that pre-fills an appended trade: the appended trade is the
  same whatever the win multipliers of the trades already in the list are.
\<close>

theorem suggested_risk_default_multiplier:
  "(i < length ts \<longrightarrow>
      nextSuggestedRisk (recalculateTrades cfg ts ! i) =
        calculateNextRisk (accountBalance (recalculateTrades cfg ts ! i))
          (profitTarget cfg) (defaultWinMultiplier cfg)) \<and>
   riskPercentage (last (fst (handleAddTrade cfg uuid trades))) =
     (case calculateNextRisk
             (if trades = [] then initialBalance cfg else accountBalance (last trades))
             (profitTarget cfg) (defaultWinMultiplier cfg) of
        None \<Rightarrow> defaultRiskPercentage cfg
      | Some r \<Rightarrow> if 0 < r \<and> r < Num 50 then r else defaultRiskPercentage cfg) \<and>
   last (fst (handleAddTrade cfg uuid (map (\<lambda>trade. trade \<lparr>winMultiplier := w trade\<rparr>) trades))) =
     last (fst (handleAddTrade cfg uuid trades))"
  by (simp add: recalculateTrades_nextSuggestedRisk handleAddTrade_fst last_map)

theorem suggested_risk_default_multiplier_witness:
  "0 < length [scenarioTrade \<lparr>winMultiplier := Num 2\<rparr>] \<and>
   accountBalance (recalculateTrades scenarioConfig [scenarioTrade \<lparr>winMultiplier := Num 2\<rparr>] ! 0)
     = Num 10200 \<and>
   nextSuggestedRisk (recalculateTrades scenarioConfig [scenarioTrade \<lparr>winMultiplier := Num 2\<rparr>] ! 0)
     = calculateNextRisk (Num 10200) (Num 10800) (Num 6.5) \<and>
   calculateNextRisk (Num 10200) (Num 10800) (Num 6.5) = Some (Num (200 / 221)) \<and>
   calculateNextRisk (Num 10200) (Num 10800) (Num 2) = Some (Num (50 / 17))"
  using suggested_risk_default_multiplier
    [of 0 "[scenarioTrade \<lparr>winMultiplier := Num 2\<rparr>]" scenarioConfig]
  by (simp add: scenarioConfig_def scenarioTrade_def eval_defs)

section \<open>What the recalculation leaves alone\<close>

text \<open>
  Claim C10. The recalculation keeps the length and the order of the list, and the
  identity, risk percentage, win multiplier and outcome of every trade; only the trade
  number, starting balance, risk amount, floating P/L, ending balance, distance to
  target and suggested next risk are written.
\<close>

theorem recalculateTrades_frame:
  "length (recalculateTrades cfg ts) = length ts \<and>
   (i < length ts \<longrightarrow>
      trade_id (recalculateTrades cfg ts ! i) = trade_id (ts ! i) \<and>
      riskPercentage (recalculateTrades cfg ts ! i) = riskPercentage (ts ! i) \<and>
      winMultiplier (recalculateTrades cfg ts ! i) = winMultiplier (ts ! i) \<and>
      outcome (recalculateTrades cfg ts ! i) = outcome (ts ! i))"
  by (simp add: recalculateTrades_user) (simp add: recalculateTrades_def)

theorem recalculateTrades_frame_witness:
  "length (recalculateTrades scenarioConfig [scenarioTrade]) = 1 \<and>
   0 < length [scenarioTrade] \<and>
   trade_id (recalculateTrades scenarioConfig [scenarioTrade] ! 0) = ''t1'' \<and>
   riskPercentage (recalculateTrades scenarioConfig [scenarioTrade] ! 0) = Num 1 \<and>
   winMultiplier (recalculateTrades scenarioConfig [scenarioTrade] ! 0) = Num 6.5 \<and>
   outcome (recalculateTrades scenarioConfig [scenarioTrade] ! 0) = Win"
  using recalculateTrades_frame [of scenarioConfig "[scenarioTrade]" 0]
  by (simp add: scenarioTrade_def)

end
